theory Spec2Isabelle
  imports Main "HOL-Library.Sublist"
begin

section \<open>JSON values and the Python operations the client applies to them\<close>

text \<open>
  The client declares \<^verbatim>\<open>JSON = Any\<close>: whatever the GOLD API returns is handled with
  Python's dynamic operations. A JSON object is a Python dict, whose keys are strings and
  which keeps insertion order, so it is an association list. JSON floats are left out of
  the value type (GOLD identifiers are strings).
\<close>

datatype json =
    JNull
  | JBool bool
  | JInt int
  | JStr string
  | JList "json list"
  | JObj "(string \<times> json) list"

datatype log_event =
    ApiCallFailed string int nat
  | SampleNotInSamples json string json
  | NoStudyStub string

datatype py_error =
    KeyError
  | IndexError
  | TypeError
  | AttributeError
  | ValueError
  | FileNotFoundError
  | RequestException
  | JSONDecodeError
  | Exception string

text \<open>Keys of a Python dict are compared by hash and equality: \<^verbatim>\<open>True == 1\<close>, and a list or
  a dict is unhashable.\<close>

datatype hkey = KNone | KInt int | KStr string

fun py_hash :: "json \<Rightarrow> py_error + hkey" where
  "py_hash JNull = Inr KNone"
| "py_hash (JBool b) = Inr (KInt (if b then 1 else 0))"
| "py_hash (JInt n) = Inr (KInt n)"
| "py_hash (JStr s) = Inr (KStr s)"
| "py_hash (JList xs) = Inl TypeError"
| "py_hash (JObj kvs) = Inl TypeError"

text \<open>\<^verbatim>\<open>obj[key]\<close> with a string key: only a dict can be subscripted by a string.\<close>

fun py_getitem :: "json \<Rightarrow> string \<Rightarrow> py_error + json" where
  "py_getitem (JObj kvs) k = (case map_of kvs k of None \<Rightarrow> Inl KeyError | Some v \<Rightarrow> Inr v)"
| "py_getitem j k = Inl TypeError"

text \<open>\<^verbatim>\<open>obj[key] = v\<close>: an existing key keeps its place, a new key goes last.\<close>

fun dict_update :: "string \<Rightarrow> json \<Rightarrow> (string \<times> json) list \<Rightarrow> (string \<times> json) list" where
  "dict_update k v [] = [(k, v)]"
| "dict_update k v (p # ps) = (if fst p = k then (k, v) # ps else p # dict_update k v ps)"

fun py_setitem :: "json \<Rightarrow> string \<Rightarrow> json \<Rightarrow> py_error + json" where
  "py_setitem (JObj kvs) k v = Inr (JObj (dict_update k v kvs))"
| "py_setitem j k v = Inl TypeError"

text \<open>\<^verbatim>\<open>obj[0]\<close>.\<close>

fun py_first :: "json \<Rightarrow> py_error + json" where
  "py_first (JList []) = Inl IndexError"
| "py_first (JList (x # xs)) = Inr x"
| "py_first (JStr []) = Inl IndexError"
| "py_first (JStr (c # cs)) = Inr (JStr [c])"
| "py_first (JObj kvs) = Inl KeyError"
| "py_first j = Inl TypeError"

text \<open>\<^verbatim>\<open>len(obj)\<close> and \<^verbatim>\<open>for x in obj\<close>: lists, dicts (their keys) and strings (their
  characters) are sized and iterable, the other values are not.\<close>

fun py_len :: "json \<Rightarrow> py_error + nat" where
  "py_len (JList xs) = Inr (length xs)"
| "py_len (JObj kvs) = Inr (length kvs)"
| "py_len (JStr s) = Inr (length s)"
| "py_len j = Inl TypeError"

fun py_iter :: "json \<Rightarrow> py_error + json list" where
  "py_iter (JList xs) = Inr xs"
| "py_iter (JObj kvs) = Inr (map (\<lambda>p. JStr (fst p)) kvs)"
| "py_iter (JStr s) = Inr (map (\<lambda>c. JStr [c]) s)"
| "py_iter j = Inl TypeError"

section \<open>Strings\<close>

text \<open>\<^verbatim>\<open>s.replace(pat, "")\<close> for a non-empty pattern: every occurrence, left to right,
  without overlap.\<close>

function remove_all :: "string \<Rightarrow> string \<Rightarrow> string" where
  "remove_all pat [] = []"
| "remove_all pat (c # cs) =
     (if pat \<noteq> [] \<and> prefix pat (c # cs) then remove_all pat (drop (length pat) (c # cs))
      else c # remove_all pat cs)"
  by pat_completeness auto
termination
  by (relation "measure (\<lambda>(pat, s). length s)") auto

text \<open>\<^verbatim>\<open>str(n)\<close> for a natural number.\<close>

definition digit_char :: "nat \<Rightarrow> char" where
  "digit_char d = ''0123456789'' ! d"

fun str_nat :: "nat \<Rightarrow> string" where
  "str_nat n = (if n < 10 then [digit_char n] else str_nat (n div 10) @ [digit_char (n mod 10)])"

section \<open>The world of the client: network, clock, disk cache, client object\<close>

text \<open>
  A request is what \<^verbatim>\<open>_fetch_url\<close> receives: endpoint URL, query parameters, user and
  password. It is also the key under which \<^verbatim>\<open>cache.memoize()\<close> stores a result.
\<close>

type_synonym params = "(string \<times> json) list"
type_synonym request = "string \<times> params \<times> string \<times> string"

text \<open>\<^verbatim>\<open>requests.get\<close> either raises or gives a response with a status code and a body;
  \<^verbatim>\<open>results.json()\<close> raises when the body is not JSON.\<close>

datatype http_result = NoResponse | Response int "json option"

text \<open>
  \<^item> \<open>gold_key\<close>, \<open>num_calls\<close>: the attributes of the \<^verbatim>\<open>GoldClient\<close> object;
  \<^item> \<open>server\<close>: what the network answers to a request, given the number of requests made
    before it; \<open>requests_sent\<close>: the number of \<^verbatim>\<open>requests.get\<close> calls made so far;
  \<^item> \<open>slept\<close>: the seconds spent in \<^verbatim>\<open>sleep\<close>;
  \<^item> \<open>cache\<close>: the disk cache;
  \<^item> \<open>trace\<close>: the arguments of the \<^verbatim>\<open>_call\<close> invocations, in order (the source counts
    them in \<^verbatim>\<open>num_calls\<close>);
  \<^item> \<open>log\<close>: the records passed to \<^verbatim>\<open>logging.error\<close> and \<^verbatim>\<open>logging.warning\<close>.
\<close>

record state =
  gold_key :: "(string \<times> string) option"
  num_calls :: nat
  server :: "request \<Rightarrow> nat \<Rightarrow> http_result"
  requests_sent :: nat
  slept :: nat
  cache :: "request \<Rightarrow> json option"
  trace :: "(string \<times> params) list"
  log :: "log_event list"

type_synonym 'a result = "(py_error + 'a) \<times> state"

section \<open>The HTTP fetcher\<close>

text \<open>The body of \<^verbatim>\<open>_fetch_url\<close>: the loop \<^verbatim>\<open>while attempt < 4\<close>.\<close>

function fetch_attempts :: "request \<Rightarrow> nat \<Rightarrow> state \<Rightarrow> json result" where
  "fetch_attempts req attempt w =
     (if attempt < 4 then
        (let w1 = w\<lparr>requests_sent := Suc (requests_sent w)\<rparr> in
         case server w req (requests_sent w) of
           NoResponse \<Rightarrow> (Inl RequestException, w1)
         | Response code body \<Rightarrow>
             if code = 200 then
               (case body of None \<Rightarrow> (Inl JSONDecodeError, w1) | Some j \<Rightarrow> (Inr j, w1))
             else
               fetch_attempts req (Suc attempt)
                 (w1\<lparr>log := log w1 @ [ApiCallFailed (fst req) code attempt],
                     slept := slept w1 + 5 ^ attempt\<rparr>))
      else
        (Inl (Exception (''API call to '' @ fst req @ '' failed after '' @ str_nat attempt
                          @ '' attempts'')), w))"
  by pat_completeness auto
termination
  by (relation "measure (\<lambda>(req, attempt, w). 4 - attempt)") auto

text \<open>\<^verbatim>\<open>cache.memoize()\<close>: a stored result is returned without calling the function; a
  result the function returns is stored; an exception is not.\<close>

definition memoize :: "(request \<Rightarrow> state \<Rightarrow> json result) \<Rightarrow> request \<Rightarrow> state \<Rightarrow> json result" where
  "memoize f req w =
     (case cache w req of
        Some v \<Rightarrow> (Inr v, w)
      | None \<Rightarrow>
          (case f req w of
             (Inr v, w') \<Rightarrow> (Inr v, w'\<lparr>cache := (cache w')(req \<mapsto> v)\<rparr>)
           | (Inl e, w') \<Rightarrow> (Inl e, w')))"

text \<open>\<^verbatim>\<open>_fetch_url\<close> carries the decorator twice.\<close>

definition fetch_url :: "request \<Rightarrow> state \<Rightarrow> json result" where
  "fetch_url = memoize (memoize (\<lambda>req. fetch_attempts req 0))"

section \<open>The GOLD client\<close>

definition gold_url :: string where
  "gold_url = ''https://gold.jgi.doe.gov/rest/nmdc''"

definition EXCLUSION_LIST :: "string list" where
  "EXCLUSION_LIST = []"

text \<open>\<^verbatim>\<open>GoldClient._normalize_id\<close>: \<^verbatim>\<open>id.replace("gold:", "")\<close>.\<close>

definition normalize_id :: "string \<Rightarrow> string" where
  "normalize_id ident = remove_all ''gold:'' ident"

text \<open>\<^verbatim>\<open>GoldClient._call\<close>: the endpoint URL is \<^verbatim>\<open>f"{self.url}/{endpoint}"\<close>; unpacking a key
  that was never loaded is a \<^verbatim>\<open>TypeError\<close>; \<^verbatim>\<open>num_calls\<close> is incremented when
  \<^verbatim>\<open>_fetch_url\<close> has returned.\<close>

definition endpoint_url :: "string \<Rightarrow> string" where
  "endpoint_url endpoint = gold_url @ ''/'' @ endpoint"

definition call :: "string \<Rightarrow> params \<Rightarrow> state \<Rightarrow> json result" where
  "call endpoint ps w =
     (case gold_key w of
        None \<Rightarrow> (Inl TypeError, w)
      | Some (user, passwd) \<Rightarrow>
          (case fetch_url (endpoint_url endpoint, ps, user, passwd) w of
             (Inl e, w') \<Rightarrow> (Inl e, w')
           | (Inr obj, w') \<Rightarrow>
               (Inr obj, w'\<lparr>num_calls := Suc (num_calls w'),
                             trace := trace w' @ [(endpoint, ps)]\<rparr>)))"

definition clear_cache :: "state \<Rightarrow> state" where
  "clear_cache w = w\<lparr>cache := (\<lambda>req. None)\<rparr>"

definition fetch_projects_by_study :: "string \<Rightarrow> state \<Rightarrow> json result" where
  "fetch_projects_by_study ident w =
     call ''projects'' [(''studyGoldId'', JStr (normalize_id ident))] w"

subsection \<open>Weaving projects into samples\<close>

text \<open>
  The dict comprehension \<^verbatim>\<open>{sample["biosampleGoldId"]: sample for sample in biosamples}\<close>.
  A value of that dict is a reference to a sample object of the list \<^verbatim>\<open>biosamples\<close>; the
  model keeps the position of the sample in the list. A later sample with the same key
  replaces an earlier one.
\<close>

fun samples_by_id :: "json list \<Rightarrow> nat \<Rightarrow> (hkey \<Rightarrow> nat option) \<Rightarrow> py_error + (hkey \<Rightarrow> nat option)" where
  "samples_by_id [] i m = Inr m"
| "samples_by_id (sample # rest) i m =
     (case py_getitem sample ''biosampleGoldId'' of
        Inl e \<Rightarrow> Inl e
      | Inr k \<Rightarrow>
          (case py_hash k of
             Inl e \<Rightarrow> Inl e
           | Inr h \<Rightarrow> samples_by_id rest (Suc i) (m(h \<mapsto> i))))"

text \<open>
  Lines 155 to 157: \<^verbatim>\<open>if "projects" not in sample: sample["projects"] = []\<close>, then
  \<^verbatim>\<open>sample["projects"].append(project)\<close>; a value without \<^verbatim>\<open>append\<close> is an
  \<^verbatim>\<open>AttributeError\<close>.
\<close>

fun append_project :: "json \<Rightarrow> json \<Rightarrow> py_error + json" where
  "append_project (JObj kvs) project =
     (let kvs' = (if map_of kvs ''projects'' = None
                  then dict_update ''projects'' (JList []) kvs else kvs)
      in case map_of kvs' ''projects'' of
           Some (JList ps) \<Rightarrow> Inr (JObj (dict_update ''projects'' (JList (ps @ [project])) kvs'))
         | _ \<Rightarrow> Inl AttributeError)"
| "append_project j project = Inl TypeError"

text \<open>
  The loop \<^verbatim>\<open>for project in projects\<close>. The f-string of the \<^verbatim>\<open>logging.debug\<close> call reads
  \<^verbatim>\<open>project["projectGoldId"]\<close> whatever the log level. The four \<^verbatim>\<open>logging.error\<close> calls
  of the unmatched branch are one \<open>SampleNotInSamples\<close> record.
\<close>

fun weave_projects ::
  "string \<Rightarrow> (hkey \<Rightarrow> nat option) \<Rightarrow> json list \<Rightarrow> json list \<Rightarrow> log_event list
   \<Rightarrow> (py_error + json list) \<times> log_event list" where
  "weave_projects ident m [] biosamples lg = (Inr biosamples, lg)"
| "weave_projects ident m (project # rest) biosamples lg =
     (case py_getitem project ''biosampleGoldId'' of
        Inl e \<Rightarrow> (Inl e, lg)
      | Inr sample_id \<Rightarrow>
          if sample_id = JNull then weave_projects ident m rest biosamples lg
          else
            (case py_hash sample_id of
               Inl e \<Rightarrow> (Inl e, lg)
             | Inr h \<Rightarrow>
                 (case m h of
                    None \<Rightarrow>
                      weave_projects ident m rest biosamples
                        (lg @ [SampleNotInSamples sample_id ident project])
                  | Some i \<Rightarrow>
                      (case py_getitem project ''projectGoldId'' of
                         Inl e \<Rightarrow> (Inl e, lg)
                       | Inr pid \<Rightarrow>
                           (case append_project (biosamples ! i) project of
                              Inl e \<Rightarrow> (Inl e, lg)
                            | Inr sample' \<Rightarrow>
                                weave_projects ident m rest (biosamples[i := sample']) lg)))))"

text \<open>The value returned is the object \<^verbatim>\<open>biosamples\<close> itself: a list with its samples
  as the loop left them, anything else (an empty dict, an empty string) as it was.\<close>

fun with_items :: "json \<Rightarrow> json list \<Rightarrow> json" where
  "with_items (JList old) items = JList items"
| "with_items j items = j"

definition weave :: "string \<Rightarrow> json \<Rightarrow> json \<Rightarrow> (py_error + json) \<times> log_event list" where
  "weave ident biosamples projects =
     (case py_iter biosamples of
        Inl e \<Rightarrow> (Inl e, [])
      | Inr samples \<Rightarrow>
          (case samples_by_id samples 0 Map.empty of
             Inl e \<Rightarrow> (Inl e, [])
           | Inr m \<Rightarrow>
               (case py_iter projects of
                  Inl e \<Rightarrow> (Inl e, [])
                | Inr ps \<Rightarrow>
                    (case weave_projects ident m ps samples [] of
                       (Inl e, lg) \<Rightarrow> (Inl e, lg)
                     | (Inr samples', lg) \<Rightarrow> (Inr (with_items biosamples samples'), lg)))))"

text \<open>\<^verbatim>\<open>GoldClient.fetch_biosamples_by_study\<close>. The projects are fetched through
  \<^verbatim>\<open>fetch_projects_by_study\<close>, which normalizes the normalized id once more.\<close>

definition fetch_biosamples_by_study :: "string \<Rightarrow> bool \<Rightarrow> state \<Rightarrow> json result" where
  "fetch_biosamples_by_study ident0 include_project w =
     (let ident = normalize_id ident0 in
      if ident \<in> set EXCLUSION_LIST then (Inr (JList []), w)
      else
        (case call ''biosamples'' [(''studyGoldId'', JStr ident)] w of
           (Inl e, w1) \<Rightarrow> (Inl e, w1)
         | (Inr biosamples, w1) \<Rightarrow>
             if \<not> include_project then (Inr biosamples, w1)
             else
               (case fetch_projects_by_study ident w1 of
                  (Inl e, w2) \<Rightarrow> (Inl e, w2)
                | (Inr projects, w2) \<Rightarrow>
                    (case weave ident biosamples projects of
                       (r, lg) \<Rightarrow> (r, w2\<lparr>log := log w2 @ lg\<rparr>)))))"

subsection \<open>Studies\<close>

text \<open>\<^verbatim>\<open>GoldClient.fetch_study\<close>.\<close>

definition fetch_study :: "string \<Rightarrow> bool \<Rightarrow> state \<Rightarrow> json result" where
  "fetch_study ident0 include_biosamples w =
     (let ident = normalize_id ident0 in
      case call ''studies'' [(''studyGoldId'', JStr ident)] w of
        (Inl e, w1) \<Rightarrow> (Inl e, w1)
      | (Inr results, w1) \<Rightarrow>
          (case py_first results of
             Inl e \<Rightarrow> (Inl e, w1)
           | Inr study \<Rightarrow>
               if \<not> include_biosamples then (Inr study, w1)
               else
                 (case fetch_biosamples_by_study ident True w1 of
                    (Inl e, w2) \<Rightarrow> (Inl e, w2)
                  | (Inr bs, w2) \<Rightarrow>
                      (case py_setitem study ''biosamples'' bs of
                         Inl e \<Rightarrow> (Inl e, w2)
                       | Inr study' \<Rightarrow> (Inr study', w2)))))"

text \<open>
  \<^verbatim>\<open>GoldClient.fetch_study_by_biosample_id\<close> (its parameter \<^verbatim>\<open>directory\<close> is not used).
  \<^verbatim>\<open>study["studyGoldId"]\<close> is passed to \<^verbatim>\<open>fetch_biosamples_by_study\<close>, whose
  \<^verbatim>\<open>id.replace\<close> is an \<^verbatim>\<open>AttributeError\<close> on anything but a string. The \<^verbatim>\<open>len\<close> in the
  last \<^verbatim>\<open>logging.info\<close> cannot raise: the weaving has iterated over the value.
\<close>

definition stub_study :: "string \<Rightarrow> json" where
  "stub_study ident = JObj [(''studyGoldId'', JStr (''GsFAKE-'' @ ident))]"

definition fetch_study_by_biosample_id :: "string \<Rightarrow> bool \<Rightarrow> state \<Rightarrow> json result" where
  "fetch_study_by_biosample_id ident0 include_biosamples w =
     (let ident = normalize_id ident0 in
      case call ''studies'' [(''biosampleGoldId'', JStr ident)] w of
        (Inl e, w1) \<Rightarrow> (Inl e, w1)
      | (Inr results, w1) \<Rightarrow>
          (case py_len results of
             Inl e \<Rightarrow> (Inl e, w1)
           | Inr n \<Rightarrow>
               (case (if n = 0
                      then (Inr (stub_study ident), w1\<lparr>log := log w1 @ [NoStudyStub ident]\<rparr>)
                      else (py_first results, w1)) of
                  (Inl e, w2) \<Rightarrow> (Inl e, w2)
                | (Inr study, w2) \<Rightarrow>
                    if \<not> include_biosamples then (Inr study, w2)
                    else
                      (case py_getitem study ''studyGoldId'' of
                         Inl e \<Rightarrow> (Inl e, w2)
                       | Inr (JStr sid) \<Rightarrow>
                           (case fetch_biosamples_by_study sid True w2 of
                              (Inl e, w3) \<Rightarrow> (Inl e, w3)
                            | (Inr bs, w3) \<Rightarrow>
                                (case py_setitem study ''biosamples'' bs of
                                   Inl e \<Rightarrow> (Inl e, w3)
                                 | Inr study' \<Rightarrow> (Inr study', w3)))
                       | Inr other \<Rightarrow> (Inl AttributeError, w2)))))"

subsection \<open>The batch orchestrator\<close>

text \<open>The inner loop \<^verbatim>\<open>for biosample in study["biosamples"]\<close> of
  \<^verbatim>\<open>fetch_studies_by_biosample_ids\<close>, on the dict \<^verbatim>\<open>biosample_to_study\<close>.\<close>

fun record_biosamples ::
  "json list \<Rightarrow> json \<Rightarrow> (hkey \<Rightarrow> json option) \<Rightarrow> py_error + (hkey \<Rightarrow> json option)" where
  "record_biosamples [] study m = Inr m"
| "record_biosamples (biosample # rest) study m =
     (case py_getitem biosample ''biosampleGoldId'' of
        Inl e \<Rightarrow> Inl e
      | Inr sid \<Rightarrow>
          (case py_getitem study ''studyGoldId'' of
             Inl e \<Rightarrow> Inl e
           | Inr st \<Rightarrow>
               (case py_hash sid of
                  Inl e \<Rightarrow> Inl e
                | Inr h \<Rightarrow> record_biosamples rest study (m(h \<mapsto> st)))))"

text \<open>The outer loop \<^verbatim>\<open>for biosample_id in ids\<close>, on \<^verbatim>\<open>biosample_to_study\<close> and
  \<^verbatim>\<open>studies\<close>. The \<^verbatim>\<open>len(study['biosamples'])\<close> of the \<^verbatim>\<open>logging.info\<close> call raises on
  the values the iteration raises on, with the same \<^verbatim>\<open>TypeError\<close>.\<close>

fun fetch_studies_loop ::
  "string list \<Rightarrow> (hkey \<Rightarrow> json option) \<Rightarrow> json list \<Rightarrow> state \<Rightarrow> (json list) result" where
  "fetch_studies_loop [] m studies w = (Inr studies, w)"
| "fetch_studies_loop (biosample_id # ids) m studies w =
     (if m (KStr biosample_id) \<noteq> None then fetch_studies_loop ids m studies w
      else
        (case fetch_study_by_biosample_id biosample_id True w of
           (Inl e, w1) \<Rightarrow> (Inl e, w1)
         | (Inr study, w1) \<Rightarrow>
             (case py_getitem study ''biosamples'' of
                Inl e \<Rightarrow> (Inl e, w1)
              | Inr bs \<Rightarrow>
                  (case py_iter bs of
                     Inl e \<Rightarrow> (Inl e, w1)
                   | Inr items \<Rightarrow>
                       (case record_biosamples items study m of
                          Inl e \<Rightarrow> (Inl e, w1)
                        | Inr m' \<Rightarrow> fetch_studies_loop ids m' (studies @ [study]) w1)))))"

definition fetch_studies_by_biosample_ids :: "string list \<Rightarrow> state \<Rightarrow> (json list) result" where
  "fetch_studies_by_biosample_ids ids w = fetch_studies_loop ids Map.empty [] w"

text \<open>\<^verbatim>\<open>GoldClient.fetch_studies\<close>: \<^verbatim>\<open>[self.fetch_study(id, **kwargs) for id in ids]\<close>.\<close>

fun fetch_studies :: "string list \<Rightarrow> bool \<Rightarrow> state \<Rightarrow> (json list) result" where
  "fetch_studies [] include_biosamples w = (Inr [], w)"
| "fetch_studies (ident # ids) include_biosamples w =
     (case fetch_study ident include_biosamples w of
        (Inl e, w1) \<Rightarrow> (Inl e, w1)
      | (Inr study, w1) \<Rightarrow>
          (case fetch_studies ids include_biosamples w1 of
             (Inl e, w2) \<Rightarrow> (Inl e, w2)
           | (Inr studies, w2) \<Rightarrow> (Inr (study # studies), w2)))"

subsection \<open>The command \<^verbatim>\<open>fetch-studies\<close>\<close>

text \<open>\<^verbatim>\<open>str.strip()\<close>, \<^verbatim>\<open>str.startswith\<close> and \<^verbatim>\<open>str.split(":")\<close>, on ASCII text.\<close>

definition is_space :: "char \<Rightarrow> bool" where
  "is_space c = (c \<in> set [CHR 0x09, CHR 0x0A, CHR 0x0B, CHR 0x0C, CHR 0x0D,
                            CHR 0x1C, CHR 0x1D, CHR 0x1E, CHR 0x1F, CHR 0x20])"

definition strip :: "string \<Rightarrow> string" where
  "strip s = rev (dropWhile is_space (rev (dropWhile is_space s)))"

definition startswith :: "string \<Rightarrow> string \<Rightarrow> bool" where
  "startswith s p = prefix p s"

fun split_on :: "char \<Rightarrow> string \<Rightarrow> string list" where
  "split_on d [] = [[]]"
| "split_on d (c # cs) =
     (if c = d then [] # split_on d cs
      else (case split_on d cs of [] \<Rightarrow> [[c]] | p # ps \<Rightarrow> (c # p) # ps))"

text \<open>A text file is the list of its lines, each with its line end; a path that cannot be
  opened has no lines at all.\<close>

type_synonym files = "string \<Rightarrow> string list option"

text \<open>\<^verbatim>\<open>GoldClient.load_key\<close>.\<close>

definition load_key :: "files \<Rightarrow> string \<Rightarrow> state \<Rightarrow> unit result" where
  "load_key fs path w =
     (case fs path of
        None \<Rightarrow> (Inl FileNotFoundError, w)
      | Some [] \<Rightarrow> (Inl IndexError, w)
      | Some (l # ls) \<Rightarrow>
          (case split_on CHR '':'' (strip l) of
             [user, passwd] \<Rightarrow> (Inr (), w\<lparr>gold_key := Some (user, passwd)\<rparr>)
           | other \<Rightarrow> (Inl ValueError, w)))"

text \<open>
  The command. It makes its own client (\<^verbatim>\<open>gc = GoldClient()\<close>). What it writes is not
  modelled; the value is the list of studies it dumps, to one file per study when a
  directory is given and the ids are study ids, to the output stream otherwise.
\<close>

definition fetch_studies_cmd ::
  "files \<Rightarrow> string \<Rightarrow> string option \<Rightarrow> bool \<Rightarrow> string \<Rightarrow> bool \<Rightarrow> state \<Rightarrow> (json list) result" where
  "fetch_studies_cmd fs idfile directory clear authentication_file include_biosamples w0 =
     (case load_key fs authentication_file (w0\<lparr>gold_key := None, num_calls := 0, trace := []\<rparr>) of
        (Inl e, w1) \<Rightarrow> (Inl e, w1)
      | (Inr u, w1) \<Rightarrow>
          (let w2 = (if clear then clear_cache w1 else w1) in
           case fs idfile of
             None \<Rightarrow> (Inl FileNotFoundError, w2)
           | Some lines \<Rightarrow>
               (let ids = map strip
                            (filter (\<lambda>line. startswith line ''Gs'' \<or> startswith line ''Gb'') lines)
                in
                if length ids = 0 then (Inl (Exception (''No ids in '' @ idfile)), w2)
                else
                  (let study_ids = filter (\<lambda>i. startswith i ''Gs'') ids;
                       biosample_ids = filter (\<lambda>i. startswith i ''Gb'') ids
                   in
                   if length study_ids > 0 \<and> length biosample_ids > 0
                   then (Inl (Exception ''Cannot mix and match study and sample IDs''), w2)
                   else if length study_ids > 0
                   then fetch_studies ids include_biosamples w2
                   else fetch_studies_by_biosample_ids ids w2))))"

section \<open>What the weaving is expected to give\<close>

text \<open>
  The key under which the dict of samples holds a sample, and the key under which a
  project looks its sample up (none when its \<^verbatim>\<open>biosampleGoldId\<close> is \<^verbatim>\<open>None\<close>). A sample is
  well formed when it is a dict with a hashable \<^verbatim>\<open>biosampleGoldId\<close> whose \<^verbatim>\<open>projects\<close>, if
  present, is a list; a project is well formed when it is a dict with a hashable
  \<^verbatim>\<open>biosampleGoldId\<close> and a \<^verbatim>\<open>projectGoldId\<close>. A project is attached to the sample at
  position \<open>j\<close> when it has a key, the sample has the same key, and no later sample has it;
  it is unmatched when it has a key that no sample has. \<open>with_projects s qs\<close> is the sample
  \<open>s\<close> with \<open>qs\<close> appended to its list of projects, and \<open>s\<close> itself when \<open>qs\<close> is empty.
\<close>

definition sample_key :: "json \<Rightarrow> hkey option" where
  "sample_key s =
     (case py_getitem s ''biosampleGoldId'' of
        Inl e \<Rightarrow> None
      | Inr k \<Rightarrow> (case py_hash k of Inl e \<Rightarrow> None | Inr h \<Rightarrow> Some h))"

definition project_key :: "json \<Rightarrow> hkey option" where
  "project_key p =
     (case py_getitem p ''biosampleGoldId'' of
        Inl e \<Rightarrow> None
      | Inr k \<Rightarrow>
          if k = JNull then None
          else (case py_hash k of Inl e \<Rightarrow> None | Inr h \<Rightarrow> Some h))"

definition project_sample_id :: "json \<Rightarrow> json" where
  "project_sample_id p = (case py_getitem p ''biosampleGoldId'' of Inl e \<Rightarrow> JNull | Inr k \<Rightarrow> k)"

definition wf_sample :: "json \<Rightarrow> bool" where
  "wf_sample s =
     (sample_key s \<noteq> None
      \<and> (case py_getitem s ''projects'' of
            Inl e \<Rightarrow> True
          | Inr (JList qs) \<Rightarrow> True
          | Inr other \<Rightarrow> False))"

definition wf_project :: "json \<Rightarrow> bool" where
  "wf_project p =
     ((case py_getitem p ''biosampleGoldId'' of Inl e \<Rightarrow> False | Inr k \<Rightarrow> \<not> isl (py_hash k))
      \<and> \<not> isl (py_getitem p ''projectGoldId''))"

definition old_projects :: "json \<Rightarrow> json list" where
  "old_projects s = (case py_getitem s ''projects'' of Inr (JList qs) \<Rightarrow> qs | other \<Rightarrow> [])"

definition with_projects :: "json \<Rightarrow> json list \<Rightarrow> json" where
  "with_projects s qs =
     (if qs = [] then s
      else (case s of
              JObj kvs \<Rightarrow> JObj (dict_update ''projects'' (JList (old_projects s @ qs)) kvs)
            | other \<Rightarrow> other))"

definition attached_to :: "json list \<Rightarrow> nat \<Rightarrow> json \<Rightarrow> bool" where
  "attached_to bs j p =
     (project_key p \<noteq> None \<and> sample_key (bs ! j) = project_key p
      \<and> project_key p \<notin> set (map sample_key (drop (Suc j) bs)))"

definition unmatched :: "json list \<Rightarrow> json \<Rightarrow> bool" where
  "unmatched bs p = (project_key p \<noteq> None \<and> project_key p \<notin> set (map sample_key bs))"

definition woven :: "json list \<Rightarrow> json list \<Rightarrow> json list" where
  "woven bs ps = map (\<lambda>j. with_projects (bs ! j) (filter (attached_to bs j) ps)) [0..<length bs]"

text \<open>The position of the last sample with a given key, and the projects a dict of
  samples sends to a position or to none.\<close>

fun last_pos :: "hkey \<Rightarrow> json list \<Rightarrow> nat option" where
  "last_pos h [] = None"
| "last_pos h (s # rest) =
     (case last_pos h rest of
        Some j \<Rightarrow> Some (Suc j)
      | None \<Rightarrow> if sample_key s = Some h then Some 0 else None)"

definition targets :: "(hkey \<Rightarrow> nat option) \<Rightarrow> nat \<Rightarrow> json \<Rightarrow> bool" where
  "targets m j p = (case project_key p of None \<Rightarrow> False | Some h \<Rightarrow> m h = Some j)"

definition no_target :: "(hkey \<Rightarrow> nat option) \<Rightarrow> json \<Rightarrow> bool" where
  "no_target m p = (case project_key p of None \<Rightarrow> False | Some h \<Rightarrow> m h = None)"

section \<open>Concrete worlds\<close>

text \<open>A server that fails \<open>k\<close> times with status 503 and then answers, a fresh world around a
  server, and a request.\<close>

definition flaky_server :: "nat \<Rightarrow> json \<Rightarrow> request \<Rightarrow> nat \<Rightarrow> http_result" where
  "flaky_server k payload req n = (if n < k then Response 503 None else Response 200 (Some payload))"

definition world0 :: "(request \<Rightarrow> nat \<Rightarrow> http_result) \<Rightarrow> state" where
  "world0 srv = \<lparr>gold_key = Some (''user'', ''pass''), num_calls = 0, server = srv,
     requests_sent = 0, slept = 0, cache = (\<lambda>req. None), trace = [], log = []\<rparr>"

definition req0 :: request where
  "req0 = (''u/studies'', [(''studyGoldId'', JStr ''Gs1'')], ''user'', ''pass'')"

text \<open>
  A server that answers every request with status 200 and the payload an API snapshot
  gives for the endpoint and the parameters, and a snapshot: study Gs1 holds the
  biosamples Gb1 and Gb2 and has a project for Gb1 and one for the unknown Gb3; the
  studies query also names Gs1 for Gb5, which the biosample list of Gs1 does not hold;
  study Gs2 has a biosample and a project whose \<^verbatim>\<open>biosampleGoldId\<close> is null.
\<close>

definition api_server :: "(string \<Rightarrow> params \<Rightarrow> json) \<Rightarrow> request \<Rightarrow> nat \<Rightarrow> http_result" where
  "api_server api req n =
     Response 200 (Some (api (drop (length gold_url + 1) (fst req)) (fst (snd req))))"

definition gold_api :: "string \<Rightarrow> params \<Rightarrow> json" where
  "gold_api endpoint ps =
     (if endpoint = ''studies'' \<and> ps \<in> set [[(''biosampleGoldId'', JStr ''Gb1'')],
             [(''biosampleGoldId'', JStr ''Gb2'')], [(''biosampleGoldId'', JStr ''Gb5'')],
             [(''studyGoldId'', JStr ''Gs1'')]]
      then JList [JObj [(''studyGoldId'', JStr ''Gs1'')]]
      else if endpoint = ''biosamples'' \<and> ps = [(''studyGoldId'', JStr ''Gs1'')]
      then JList [JObj [(''biosampleGoldId'', JStr ''Gb1'')],
                  JObj [(''biosampleGoldId'', JStr ''Gb2'')]]
      else if endpoint = ''projects'' \<and> ps = [(''studyGoldId'', JStr ''Gs1'')]
      then JList [JObj [(''projectGoldId'', JStr ''Gp1''), (''biosampleGoldId'', JStr ''Gb1'')],
                  JObj [(''projectGoldId'', JStr ''Gp3''), (''biosampleGoldId'', JStr ''Gb3'')]]
      else if endpoint = ''biosamples'' \<and> ps = [(''studyGoldId'', JStr ''Gs2'')]
      then JList [JObj [(''biosampleGoldId'', JNull)]]
      else if endpoint = ''projects'' \<and> ps = [(''studyGoldId'', JStr ''Gs2'')]
      then JList [JObj [(''projectGoldId'', JStr ''Gp7''), (''biosampleGoldId'', JNull)]]
      else JList [])"

definition gold_world :: state where
  "gold_world = world0 (api_server gold_api)"

text \<open>A world serves an API snapshot when the client has a key and, for that key, the
  server answers every request with status 200 and the snapshot's payload, and the cache
  holds nothing else.\<close>

definition serves :: "(string \<Rightarrow> params \<Rightarrow> json) \<Rightarrow> state \<Rightarrow> bool" where
  "serves api w =
     (\<exists>user passwd. gold_key w = Some (user, passwd)
        \<and> (\<forall>endpoint ps n.
              server w (endpoint_url endpoint, ps, user, passwd) n
                = Response 200 (Some (api endpoint ps)))
        \<and> (\<forall>endpoint ps v.
              cache w (endpoint_url endpoint, ps, user, passwd) = Some v
                \<longrightarrow> v = api endpoint ps))"

text \<open>Two files: a key file, and an identifier file with a study id and a biosample
  id.\<close>

definition files0 :: files where
  "files0 path =
     (if path = ''key.txt'' then Some [''user:pass'' @ [CHR 0x0A]]
      else if path = ''ids.txt'' then Some [''Gs0144570'' @ [CHR 0x0A], ''Gb0011929'' @ [CHR 0x0A]]
      else None)"


section \<open>What the orchestrator is expected to give\<close>








declare fetch_attempts.simps [simp del]

section \<open>Facts about the fetcher\<close>

lemma str_nat_4: "str_nat 4 = ''4''"
  by (simp add: digit_char_def)

lemma fetch_attempts_retry:
  assumes "attempt < 4" and "server w req (requests_sent w) = Response code body"
    and "code \<noteq> 200"
  shows "fetch_attempts req attempt w =
         fetch_attempts req (Suc attempt)
           (w\<lparr>requests_sent := Suc (requests_sent w),
              log := log w @ [ApiCallFailed (fst req) code attempt],
              slept := slept w + 5 ^ attempt\<rparr>)"
  using assms by (subst fetch_attempts.simps) simp

lemma fetch_attempts_ok:
  assumes "attempt < 4" and "server w req (requests_sent w) = Response 200 (Some j)"
  shows "fetch_attempts req attempt w = (Inr j, w\<lparr>requests_sent := Suc (requests_sent w)\<rparr>)"
  using assms by (subst fetch_attempts.simps) simp

lemma fetch_attempts_exhausted:
  "fetch_attempts req 4 w =
     (Inl (Exception (''API call to '' @ fst req @ '' failed after 4 attempts'')), w)"
  by (subst fetch_attempts.simps) (simp add: str_nat_4 del: str_nat.simps)

lemma memoize_miss_ok:
  assumes "cache w req = None" and "f req w = (Inr v, w')"
  shows "memoize f req w = (Inr v, w'\<lparr>cache := (cache w')(req \<mapsto> v)\<rparr>)"
  using assms by (simp add: memoize_def)

lemma memoize_miss_error:
  assumes "cache w req = None" and "f req w = (Inl e, w')"
  shows "memoize f req w = (Inl e, w')"
  using assms by (simp add: memoize_def)

lemma memoize_hit:
  assumes "cache w req = Some v"
  shows "memoize f req w = (Inr v, w)"
  using assms by (simp add: memoize_def)

lemma fetch_url_miss_ok:
  assumes "cache w req = None" and "fetch_attempts req 0 w = (Inr v, w')"
    and "cache w' = cache w"
  shows "fetch_url req w = (Inr v, w'\<lparr>cache := (cache w)(req \<mapsto> v)\<rparr>)"
proof -
  have "memoize (\<lambda>r. fetch_attempts r 0) req w = (Inr v, w'\<lparr>cache := (cache w')(req \<mapsto> v)\<rparr>)"
    using assms(1,2) by (rule memoize_miss_ok)
  then show ?thesis
    using assms(1,3) by (simp add: fetch_url_def memoize_miss_ok)
qed

lemma fetch_url_miss_error:
  assumes "cache w req = None" and "fetch_attempts req 0 w = (Inl e, w')"
  shows "fetch_url req w = (Inl e, w')"
  using assms by (simp add: fetch_url_def memoize_miss_error)

lemma fetch_url_hit:
  assumes "cache w req = Some v"
  shows "fetch_url req w = (Inr v, w)"
  using assms by (simp add: fetch_url_def memoize_hit)

section \<open>Facts about worlds that serve an API snapshot\<close>

lemma endpoint_url_inj: "endpoint_url a = endpoint_url b \<longleftrightarrow> a = b"
  by (simp add: endpoint_url_def)

lemma serves_call:
  assumes "serves api w"
  shows "\<exists>w'. call endpoint ps w = (Inr (api endpoint ps), w') \<and> serves api w'
              \<and> trace w' = trace w @ [(endpoint, ps)] \<and> log w' = log w
              \<and> num_calls w' = Suc (num_calls w)"
proof -
  from assms obtain user passwd where key: "gold_key w = Some (user, passwd)"
    and srv: "\<And>endpoint ps n. server w (endpoint_url endpoint, ps, user, passwd) n
                = Response 200 (Some (api endpoint ps))"
    and cch: "\<And>endpoint ps v. cache w (endpoint_url endpoint, ps, user, passwd) = Some v
                \<Longrightarrow> v = api endpoint ps"
    unfolding serves_def by blast
  let ?req = "(endpoint_url endpoint, ps, user, passwd)"
  show ?thesis
  proof (cases "cache w ?req")
    case (Some v)
    with cch have v: "v = api endpoint ps" by simp
    have "fetch_url ?req w = (Inr v, w)" using Some by (rule fetch_url_hit)
    with key v have c: "call endpoint ps w = (Inr (api endpoint ps),
        w\<lparr>num_calls := Suc (num_calls w), trace := trace w @ [(endpoint, ps)]\<rparr>)"
      by (simp add: call_def)
    have "serves api (w\<lparr>num_calls := Suc (num_calls w), trace := trace w @ [(endpoint, ps)]\<rparr>)"
      using assms by (simp add: serves_def)
    with c show ?thesis by simp
  next
    case None
    have "fetch_attempts ?req 0 w = (Inr (api endpoint ps), w\<lparr>requests_sent := Suc (requests_sent w)\<rparr>)"
      by (rule fetch_attempts_ok) (simp_all add: srv)
    from fetch_url_miss_ok [OF None this]
    have f: "fetch_url ?req w = (Inr (api endpoint ps),
        w\<lparr>requests_sent := Suc (requests_sent w), cache := (cache w)(?req \<mapsto> api endpoint ps)\<rparr>)"
      by simp
    let ?w' = "w\<lparr>requests_sent := Suc (requests_sent w), cache := (cache w)(?req \<mapsto> api endpoint ps),
                num_calls := Suc (num_calls w), trace := trace w @ [(endpoint, ps)]\<rparr>"
    from f key have c: "call endpoint ps w = (Inr (api endpoint ps), ?w')"
      by (simp add: call_def)
    have "serves api ?w'"
      unfolding serves_def
      apply (rule exI [of _ user], rule exI [of _ passwd])
      using key srv cch by (auto simp: endpoint_url_inj split: if_splits)
    with c show ?thesis by simp
  qed
qed

lemma serves_log: "serves api (w\<lparr>log := l\<rparr>) = serves api w"
  by (simp add: serves_def)

lemma serves_gold_world: "serves gold_api gold_world"
  unfolding serves_def gold_world_def world0_def
  by (intro exI [of _ "''user''"] exI [of _ "''pass''"]) (simp add: api_server_def endpoint_url_def)

section \<open>Claims about the fetcher\<close>

text \<open>
  C3. When the cache holds nothing for the request and the HTTP request returns a status
  other than 200 on the first three attempts and 200 with a payload on the fourth,
  \<^verbatim>\<open>_fetch_url\<close> returns that payload, having made four requests and slept 1 + 5 + 25
  seconds (\<open>5 ^ attempt\<close> after the failed attempts 0, 1 and 2); the payload is stored in the
  cache.
\<close>

theorem fetch_url_three_failures_then_ok:
  assumes miss: "cache w req = None"
    and r0: "server w req (requests_sent w) = Response c0 b0" "c0 \<noteq> 200"
    and r1: "server w req (requests_sent w + 1) = Response c1 b1" "c1 \<noteq> 200"
    and r2: "server w req (requests_sent w + 2) = Response c2 b2" "c2 \<noteq> 200"
    and r3: "server w req (requests_sent w + 3) = Response 200 (Some payload)"
  shows "fetch_url req w =
           (Inr payload,
            w\<lparr>requests_sent := requests_sent w + 4,
               log := log w @ [ApiCallFailed (fst req) c0 0, ApiCallFailed (fst req) c1 1,
                               ApiCallFailed (fst req) c2 2],
               slept := slept w + (1 + 5 + 25),
               cache := (cache w)(req \<mapsto> payload)\<rparr>)"
proof -
  let ?w1 = "w\<lparr>requests_sent := Suc (requests_sent w),
                log := log w @ [ApiCallFailed (fst req) c0 0], slept := slept w + 5 ^ 0\<rparr>"
  let ?w2 = "?w1\<lparr>requests_sent := Suc (requests_sent ?w1),
                log := log ?w1 @ [ApiCallFailed (fst req) c1 1], slept := slept ?w1 + 5 ^ 1\<rparr>"
  let ?w3 = "?w2\<lparr>requests_sent := Suc (requests_sent ?w2),
                log := log ?w2 @ [ApiCallFailed (fst req) c2 2], slept := slept ?w2 + 5 ^ 2\<rparr>"
  have s0: "fetch_attempts req 0 w = fetch_attempts req (Suc 0) ?w1"
    using fetch_attempts_retry [of 0 w req c0 b0] r0 by simp
  have s1: "fetch_attempts req (Suc 0) ?w1 = fetch_attempts req (Suc (Suc 0)) ?w2"
    using fetch_attempts_retry [of "Suc 0" ?w1 req c1 b1] r1 by simp
  have s2: "fetch_attempts req (Suc (Suc 0)) ?w2 = fetch_attempts req (Suc (Suc (Suc 0))) ?w3"
    using fetch_attempts_retry [of "Suc (Suc 0)" ?w2 req c2 b2] r2 by (simp add: numeral_2_eq_2)
  have s3: "fetch_attempts req (Suc (Suc (Suc 0))) ?w3
            = (Inr payload, ?w3\<lparr>requests_sent := Suc (requests_sent ?w3)\<rparr>)"
    using fetch_attempts_ok [of "Suc (Suc (Suc 0))" ?w3 req payload] r3 by (simp add: numeral_3_eq_3)
  have "fetch_attempts req 0 w = (Inr payload, ?w3\<lparr>requests_sent := Suc (requests_sent ?w3)\<rparr>)"
    using s0 s1 s2 s3 by simp
  from fetch_url_miss_ok [OF miss this] show ?thesis
    by simp
qed

theorem fetch_url_three_failures_then_ok_witness:
  "fst (fetch_url req0 (world0 (flaky_server 3 (JList [JStr ''ok''])))) = Inr (JList [JStr ''ok''])
   \<and> slept (snd (fetch_url req0 (world0 (flaky_server 3 (JList [JStr ''ok'']))))) = 31
   \<and> requests_sent (snd (fetch_url req0 (world0 (flaky_server 3 (JList [JStr ''ok'']))))) = 4"
  using fetch_url_three_failures_then_ok [of "world0 (flaky_server 3 (JList [JStr ''ok'']))" req0
      503 None 503 None 503 None "JList [JStr ''ok'']"]
  by (simp add: world0_def flaky_server_def)

text \<open>
  C4. When the cache holds nothing for the request and the HTTP request returns a status
  other than 200 on all four attempts, \<^verbatim>\<open>_fetch_url\<close> raises the exception whose message
  is "API call to URL failed after 4 attempts" and returns no value; it has slept
  1 + 5 + 25 + 125 seconds and the cache is as it was.
\<close>

theorem fetch_url_four_failures:
  assumes miss: "cache w req = None"
    and r0: "server w req (requests_sent w) = Response c0 b0" "c0 \<noteq> 200"
    and r1: "server w req (requests_sent w + 1) = Response c1 b1" "c1 \<noteq> 200"
    and r2: "server w req (requests_sent w + 2) = Response c2 b2" "c2 \<noteq> 200"
    and r3: "server w req (requests_sent w + 3) = Response c3 b3" "c3 \<noteq> 200"
  shows "fetch_url req w =
           (Inl (Exception (''API call to '' @ fst req @ '' failed after 4 attempts'')),
            w\<lparr>requests_sent := requests_sent w + 4,
               log := log w @ [ApiCallFailed (fst req) c0 0, ApiCallFailed (fst req) c1 1,
                               ApiCallFailed (fst req) c2 2, ApiCallFailed (fst req) c3 3],
               slept := slept w + (1 + 5 + 25 + 125)\<rparr>)"
proof -
  let ?w1 = "w\<lparr>requests_sent := Suc (requests_sent w),
                log := log w @ [ApiCallFailed (fst req) c0 0], slept := slept w + 5 ^ 0\<rparr>"
  let ?w2 = "?w1\<lparr>requests_sent := Suc (requests_sent ?w1),
                log := log ?w1 @ [ApiCallFailed (fst req) c1 1], slept := slept ?w1 + 5 ^ 1\<rparr>"
  let ?w3 = "?w2\<lparr>requests_sent := Suc (requests_sent ?w2),
                log := log ?w2 @ [ApiCallFailed (fst req) c2 2], slept := slept ?w2 + 5 ^ 2\<rparr>"
  let ?w4 = "?w3\<lparr>requests_sent := Suc (requests_sent ?w3),
                log := log ?w3 @ [ApiCallFailed (fst req) c3 3], slept := slept ?w3 + 5 ^ 3\<rparr>"
  have s0: "fetch_attempts req 0 w = fetch_attempts req (Suc 0) ?w1"
    using fetch_attempts_retry [of 0 w req c0 b0] r0 by simp
  have s1: "fetch_attempts req (Suc 0) ?w1 = fetch_attempts req (Suc (Suc 0)) ?w2"
    using fetch_attempts_retry [of "Suc 0" ?w1 req c1 b1] r1 by simp
  have s2: "fetch_attempts req (Suc (Suc 0)) ?w2 = fetch_attempts req (Suc (Suc (Suc 0))) ?w3"
    using fetch_attempts_retry [of "Suc (Suc 0)" ?w2 req c2 b2] r2 by (simp add: numeral_2_eq_2)
  have s3: "fetch_attempts req (Suc (Suc (Suc 0))) ?w3 = fetch_attempts req (Suc (Suc (Suc (Suc 0)))) ?w4"
    using fetch_attempts_retry [of "Suc (Suc (Suc 0))" ?w3 req c3 b3] r3 by (simp add: numeral_3_eq_3)
  have four: "Suc (Suc (Suc (Suc 0))) = 4" by simp
  have "fetch_attempts req 0 w
        = (Inl (Exception (''API call to '' @ fst req @ '' failed after 4 attempts'')), ?w4)"
    using s0 s1 s2 s3 fetch_attempts_exhausted [of req ?w4] by (simp only: four)
  from fetch_url_miss_error [OF miss this] show ?thesis
    by simp
qed

theorem fetch_url_four_failures_witness:
  "fetch_url req0 (world0 (flaky_server 4 JNull)) =
     (Inl (Exception ''API call to u/studies failed after 4 attempts''),
      (world0 (flaky_server 4 JNull))\<lparr>requests_sent := 4,
         log := [ApiCallFailed ''u/studies'' 503 0, ApiCallFailed ''u/studies'' 503 1,
                 ApiCallFailed ''u/studies'' 503 2, ApiCallFailed ''u/studies'' 503 3],
         slept := 156\<rparr>)"
  using fetch_url_four_failures [of "world0 (flaky_server 4 JNull)" req0
      503 None 503 None 503 None 503 None]
  by (simp add: world0_def flaky_server_def req0_def)



lemma fetch_url_unfold:
  "fetch_url req w =
     (case cache w req of
        Some v \<Rightarrow> (Inr v, w)
      | None \<Rightarrow>
          (case fetch_attempts req 0 w of
             (Inr v, w') \<Rightarrow> (Inr v, w'\<lparr>cache := (cache w')(req \<mapsto> v)\<rparr>)
           | (Inl e, w') \<Rightarrow> (Inl e, w')))"
  by (simp add: fetch_url_def memoize_def split: option.splits prod.splits sum.splits)







section \<open>Claims about identifiers\<close>






section \<open>Claims about the command\<close>

lemma dropWhile_append_keep:
  "\<not> P y \<Longrightarrow> \<exists>zs. dropWhile P (xs @ y # ys) = zs @ y # ys"
  by (induction xs) auto

lemma strip_keeps_two:
  assumes "prefix [a, b] l" and "\<not> is_space a" and "\<not> is_space b"
  shows "prefix [a, b] (strip l)"
proof -
  from assms(1) obtain rest where l: "l = a # b # rest"
    by (auto simp: prefix_def)
  have d: "dropWhile is_space l = l"
    using assms(2) l by simp
  obtain zs where "dropWhile is_space (rev rest @ b # [a]) = zs @ b # [a]"
    using dropWhile_append_keep [of is_space b "rev rest" "[a]"] assms(3) by blast
  then have "strip l = a # b # rev zs"
    by (simp add: strip_def d) (simp add: l)
  then show ?thesis by simp
qed

lemma strip_keeps_Gs: "startswith l ''Gs'' \<Longrightarrow> startswith (strip l) ''Gs''"
  unfolding startswith_def by (rule strip_keeps_two) (simp_all add: is_space_def)

lemma strip_keeps_Gb: "startswith l ''Gb'' \<Longrightarrow> startswith (strip l) ''Gb''"
  unfolding startswith_def by (rule strip_keeps_two) (simp_all add: is_space_def)

lemma load_key_requests_sent:
  "requests_sent (snd (load_key fs path w)) = requests_sent w"
  by (auto simp: load_key_def split: option.splits list.splits)

text \<open>
  C8. When the identifier file has a line that starts with "Gs" and a line that starts
  with "Gb", the command \<^verbatim>\<open>fetch-studies\<close> raises an exception and has made no HTTP
  request: when the key file loads, the exception is "Cannot mix and match study and
  sample IDs"; otherwise it is the error of loading the key file, which comes first.
\<close>

theorem mixed_id_types_rejected:
  assumes idf: "fs idfile = Some lines"
    and gs: "l1 \<in> set lines" "startswith l1 ''Gs''"
    and gb: "l2 \<in> set lines" "startswith l2 ''Gb''"
  shows "(\<exists>e. fst (fetch_studies_cmd fs idfile directory clear authentication_file
                    include_biosamples w0) = Inl e)
       \<and> requests_sent (snd (fetch_studies_cmd fs idfile directory clear authentication_file
                    include_biosamples w0)) = requests_sent w0
       \<and> (\<forall>u w1. load_key fs authentication_file
                    (w0\<lparr>gold_key := None, num_calls := 0, trace := []\<rparr>) = (Inr u, w1) \<longrightarrow>
             fetch_studies_cmd fs idfile directory clear authentication_file include_biosamples w0
               = (Inl (Exception ''Cannot mix and match study and sample IDs''),
                  if clear then clear_cache w1 else w1))"
proof -
  let ?ids = "map strip (filter (\<lambda>line. startswith line ''Gs'' \<or> startswith line ''Gb'') lines)"
  let ?w = "w0\<lparr>gold_key := None, num_calls := 0, trace := []\<rparr>"
  have s: "strip l1 \<in> set ?ids" using gs by auto
  have b: "strip l2 \<in> set ?ids" using gb by auto
  have ne: "length ?ids \<noteq> 0" using s by (auto simp del: set_map set_filter)
  have "strip l1 \<in> set (filter (\<lambda>i. startswith i ''Gs'') ?ids)"
    using s strip_keeps_Gs [OF gs(2)] by (simp del: set_map)
  then have ns: "length (filter (\<lambda>i. startswith i ''Gs'') ?ids) > 0"
    by (rule length_pos_if_in_set)
  have "strip l2 \<in> set (filter (\<lambda>i. startswith i ''Gb'') ?ids)"
    using b strip_keeps_Gb [OF gb(2)] by (simp del: set_map)
  then have nb: "length (filter (\<lambda>i. startswith i ''Gb'') ?ids) > 0"
    by (rule length_pos_if_in_set)
  have ok: "fetch_studies_cmd fs idfile directory clear authentication_file include_biosamples w0
               = (Inl (Exception ''Cannot mix and match study and sample IDs''),
                  if clear then clear_cache w1 else w1)"
    if "load_key fs authentication_file ?w = (Inr u, w1)" for u w1
    unfolding fetch_studies_cmd_def that using idf ne ns nb
    by (simp add: Let_def del: set_map set_filter length_greater_0_conv filter_map)
  show ?thesis
  proof (cases "load_key fs authentication_file ?w")
    case (Pair r w1)
    show ?thesis
    proof (cases r)
      case (Inl e)
      with Pair have "fetch_studies_cmd fs idfile directory clear authentication_file
                        include_biosamples w0 = (Inl e, w1)"
        by (simp add: fetch_studies_cmd_def)
      moreover have "requests_sent w1 = requests_sent w0"
        using load_key_requests_sent [of fs authentication_file ?w] Pair by simp
      ultimately show ?thesis using Pair Inl by simp
    next
      case (Inr u)
      have "requests_sent w1 = requests_sent w0"
        using load_key_requests_sent [of fs authentication_file ?w] Pair by simp
      with ok [of u w1] Pair Inr show ?thesis
        by (auto simp: clear_cache_def)
    qed
  qed
qed

theorem mixed_id_types_rejected_witness:
  "fst (fetch_studies_cmd files0 ''ids.txt'' None False ''key.txt'' False gold_world)
     = Inl (Exception ''Cannot mix and match study and sample IDs'')
   \<and> requests_sent (snd (fetch_studies_cmd files0 ''ids.txt'' None False ''key.txt'' False gold_world))
     = requests_sent gold_world"
proof -
  have f: "files0 ''ids.txt'' = Some [''Gs0144570'' @ [CHR 0x0A], ''Gb0011929'' @ [CHR 0x0A]]"
    by (simp add: files0_def)
  have k: "load_key files0 ''key.txt'' (gold_world\<lparr>gold_key := None, num_calls := 0, trace := []\<rparr>)
       = (Inr (), gold_world\<lparr>gold_key := Some (''user'', ''pass''), num_calls := 0, trace := []\<rparr>)"
    by (simp add: load_key_def files0_def strip_def is_space_def)
  from mixed_id_types_rejected [of files0 "''ids.txt''"
      "[''Gs0144570'' @ [CHR 0x0A], ''Gb0011929'' @ [CHR 0x0A]]"
      "''Gs0144570'' @ [CHR 0x0A]" "''Gb0011929'' @ [CHR 0x0A]"
      None False "''key.txt''" False gold_world] f k
  show ?thesis
    by (simp add: startswith_def)
qed

section \<open>Claims about the weaving of projects into biosamples\<close>

lemma fetch_biosamples_by_study_weave:
  assumes "call ''biosamples'' [(''studyGoldId'', JStr (normalize_id ident))] w = (Inr biosamples, w1)"
    and "fetch_projects_by_study (normalize_id ident) w1 = (Inr projects, w2)"
  shows "fetch_biosamples_by_study ident True w =
           (case weave (normalize_id ident) biosamples projects of
              (r, lg) \<Rightarrow> (r, w2\<lparr>log := log w2 @ lg\<rparr>))"
  using assms by (simp add: fetch_biosamples_by_study_def EXCLUSION_LIST_def Let_def)

lemma weave_projects_skip_null:
  "weave_projects ident m ps bs lg =
   weave_projects ident m (filter (\<lambda>p. py_getitem p ''biosampleGoldId'' \<noteq> Inr JNull) ps) bs lg"
proof (induction ps arbitrary: bs lg)
  case Nil
  show ?case by simp
next
  case (Cons p ps)
  show ?case
  proof (cases "py_getitem p ''biosampleGoldId'' = Inr JNull")
    case True
    then show ?thesis using Cons.IH [of bs lg] by simp
  next
    case False
    then show ?thesis
      using Cons.IH by (simp split: sum.splits option.splits)
  qed
qed

lemma serves_fetch_biosamples_by_study:
  assumes "serves api w"
  shows "\<exists>w2. fetch_biosamples_by_study ident True w =
           (case weave (normalize_id ident)
                   (api ''biosamples'' [(''studyGoldId'', JStr (normalize_id ident))])
                   (api ''projects'' [(''studyGoldId'', JStr (normalize_id (normalize_id ident)))]) of
              (r, lg) \<Rightarrow> (r, w2\<lparr>log := log w2 @ lg\<rparr>))
          \<and> serves api w2 \<and> log w2 = log w
          \<and> trace w2 = trace w @ [(''biosamples'', [(''studyGoldId'', JStr (normalize_id ident))]),
               (''projects'', [(''studyGoldId'', JStr (normalize_id (normalize_id ident)))])]"
proof -
  obtain w1 where c1: "call ''biosamples'' [(''studyGoldId'', JStr (normalize_id ident))] w
        = (Inr (api ''biosamples'' [(''studyGoldId'', JStr (normalize_id ident))]), w1)"
    and s1: "serves api w1" and l1: "log w1 = log w"
    and t1: "trace w1 = trace w @ [(''biosamples'', [(''studyGoldId'', JStr (normalize_id ident))])]"
    using serves_call [OF assms] by blast
  obtain w2 where c2: "call ''projects'' [(''studyGoldId'', JStr (normalize_id (normalize_id ident)))] w1
        = (Inr (api ''projects'' [(''studyGoldId'', JStr (normalize_id (normalize_id ident)))]), w2)"
    and s2: "serves api w2" and l2: "log w2 = log w1"
    and t2: "trace w2 = trace w1 @ [(''projects'', [(''studyGoldId'', JStr (normalize_id (normalize_id ident)))])]"
    using serves_call [OF s1] by blast
  from c2 have p: "fetch_projects_by_study (normalize_id ident) w1
        = (Inr (api ''projects'' [(''studyGoldId'', JStr (normalize_id (normalize_id ident)))]), w2)"
    by (simp add: fetch_projects_by_study_def)
  from fetch_biosamples_by_study_weave [OF c1 p] s2 l1 l2 t1 t2 show ?thesis
    by (intro exI [of _ w2]) simp
qed

lemma normalize_id_Gs2: "normalize_id ''Gs2'' = ''Gs2''"
  by (simp add: normalize_id_def)

text \<open>
  C10. A project whose \<^verbatim>\<open>biosampleGoldId\<close> is \<^verbatim>\<open>None\<close> is skipped by the loop before
  the dict of samples is consulted: whatever that dict holds (also an entry for the key
  \<^verbatim>\<open>None\<close>), the samples and the log are as they were. Hence the weaving gives the same
  samples, the same error if any, and the same log records as it gives on the projects
  without those whose \<^verbatim>\<open>biosampleGoldId\<close> is \<^verbatim>\<open>None\<close>, and so does
  \<^verbatim>\<open>fetch_biosamples_by_study\<close>.
\<close>

theorem null_id_projects_are_skipped:
  "(py_getitem project ''biosampleGoldId'' = Inr JNull \<longrightarrow>
      weave_projects ident m (project # rest) samples lg
        = weave_projects ident m rest samples lg)
   \<and> weave ident biosamples (JList ps)
       = weave ident biosamples
           (JList (filter (\<lambda>p. py_getitem p ''biosampleGoldId'' \<noteq> Inr JNull) ps))
   \<and> (call ''biosamples'' [(''studyGoldId'', JStr (normalize_id ident))] w = (Inr biosamples, w1)
        \<and> fetch_projects_by_study (normalize_id ident) w1 = (Inr (JList ps), w2) \<longrightarrow>
      fetch_biosamples_by_study ident True w =
        (case weave (normalize_id ident) biosamples
                (JList (filter (\<lambda>p. py_getitem p ''biosampleGoldId'' \<noteq> Inr JNull) ps)) of
           (r, lg) \<Rightarrow> (r, w2\<lparr>log := log w2 @ lg\<rparr>)))"
proof (intro conjI impI)
  assume "py_getitem project ''biosampleGoldId'' = Inr JNull"
  then show "weave_projects ident m (project # rest) samples lg
        = weave_projects ident m rest samples lg"
    by simp
next
  show f: "weave ident biosamples (JList ps)
       = weave ident biosamples
           (JList (filter (\<lambda>p. py_getitem p ''biosampleGoldId'' \<noteq> Inr JNull) ps))" for ident
    unfolding weave_def
    by (simp add: weave_projects_skip_null [symmetric] split: sum.splits)
  assume "call ''biosamples'' [(''studyGoldId'', JStr (normalize_id ident))] w = (Inr biosamples, w1)
        \<and> fetch_projects_by_study (normalize_id ident) w1 = (Inr (JList ps), w2)"
  then show "fetch_biosamples_by_study ident True w =
        (case weave (normalize_id ident) biosamples
                (JList (filter (\<lambda>p. py_getitem p ''biosampleGoldId'' \<noteq> Inr JNull) ps)) of
           (r, lg) \<Rightarrow> (r, w2\<lparr>log := log w2 @ lg\<rparr>))"
    using fetch_biosamples_by_study_weave [of ident w biosamples w1 "JList ps" w2] f by simp
qed

theorem null_id_projects_are_skipped_witness:
  "weave_projects ''Gs2'' [KNone \<mapsto> 0]
      [JObj [(''projectGoldId'', JStr ''Gp7''), (''biosampleGoldId'', JNull)]]
      [JObj [(''biosampleGoldId'', JNull)]] []
     = (Inr [JObj [(''biosampleGoldId'', JNull)]], [])
   \<and> fst (fetch_biosamples_by_study ''Gs2'' True gold_world)
       = Inr (JList [JObj [(''biosampleGoldId'', JNull)]])
   \<and> log (snd (fetch_biosamples_by_study ''Gs2'' True gold_world)) = []"
proof -
  let ?p = "JObj [(''projectGoldId'', JStr ''Gp7''), (''biosampleGoldId'', JNull)]"
  let ?b = "JObj [(''biosampleGoldId'', JNull)]"
  obtain w1 where c1: "call ''biosamples'' [(''studyGoldId'', JStr (normalize_id ''Gs2''))] gold_world
        = (Inr (gold_api ''biosamples'' [(''studyGoldId'', JStr (normalize_id ''Gs2''))]), w1)"
    and s1: "serves gold_api w1" and l1: "log w1 = log gold_world"
    using serves_call [OF serves_gold_world] by blast
  obtain w2 where c2: "call ''projects'' [(''studyGoldId'', JStr (normalize_id (normalize_id ''Gs2'')))] w1
        = (Inr (gold_api ''projects'' [(''studyGoldId'', JStr (normalize_id (normalize_id ''Gs2'')))]), w2)"
    and l2: "log w2 = log w1"
    using serves_call [OF s1] by blast
  have b: "gold_api ''biosamples'' [(''studyGoldId'', JStr (normalize_id ''Gs2''))] = JList [?b]"
    by (simp add: gold_api_def normalize_id_Gs2)
  have p: "gold_api ''projects'' [(''studyGoldId'', JStr (normalize_id (normalize_id ''Gs2'')))] = JList [?p]"
    by (simp add: gold_api_def normalize_id_Gs2)
  have fp: "fetch_projects_by_study (normalize_id ''Gs2'') w1 = (Inr (JList [?p]), w2)"
    using c2 p by (simp add: fetch_projects_by_study_def)
  have l0: "log gold_world = []"
    by (simp add: gold_world_def world0_def)
  have wv: "weave (normalize_id ''Gs2'') (JList [?b]) (JList []) = (Inr (JList [?b]), [])"
    by (simp add: weave_def)
  from null_id_projects_are_skipped [where project = ?p and ident = "''Gs2''"
      and m = "[KNone \<mapsto> 0]" and rest = "[]" and samples = "[?b]" and lg = "[]"
      and biosamples = "JList [?b]" and ps = "[?p]" and w = gold_world and ?w1.0 = w1
      and ?w2.0 = w2] c1 fp l0 l1 l2
  show ?thesis
    unfolding b by (simp add: wv)
qed

lemma samples_by_id_last_pos:
  assumes "\<forall>s\<in>set bs. sample_key s \<noteq> None"
  shows "samples_by_id bs i m
         = Inr (\<lambda>h. case last_pos h bs of Some j \<Rightarrow> Some (i + j) | None \<Rightarrow> m h)"
  using assms
proof (induction bs arbitrary: i m)
  case Nil
  show ?case by simp
next
  case (Cons s bs)
  from Cons.prems obtain k h where k: "py_getitem s ''biosampleGoldId'' = Inr k"
    and h: "py_hash k = Inr h" and sk: "sample_key s = Some h"
    by (auto simp: sample_key_def split: sum.splits)
  have "samples_by_id (s # bs) i m = samples_by_id bs (Suc i) (m(h \<mapsto> i))"
    using k h by simp
  also have "\<dots> = Inr (\<lambda>h'. case last_pos h' bs of Some j \<Rightarrow> Some (Suc i + j)
                                | None \<Rightarrow> (m(h \<mapsto> i)) h')"
    using Cons.prems by (intro Cons.IH) simp
  also have "(\<lambda>h'. case last_pos h' bs of Some j \<Rightarrow> Some (Suc i + j) | None \<Rightarrow> (m(h \<mapsto> i)) h')
           = (\<lambda>h'. case last_pos h' (s # bs) of Some j \<Rightarrow> Some (i + j) | None \<Rightarrow> m h')"
    using sk by (auto simp: fun_eq_iff split: option.splits)
  finally show ?case .
qed

lemma last_pos_less: "last_pos h bs = Some j \<Longrightarrow> j < length bs"
  by (induction bs arbitrary: j) (auto split: option.splits if_splits)

lemma last_pos_None: "last_pos h bs = None \<longleftrightarrow> Some h \<notin> set (map sample_key bs)"
  by (induction bs) (auto split: option.splits)

lemma last_pos_Some:
  "last_pos h bs = Some j \<longleftrightarrow>
     j < length bs \<and> sample_key (bs ! j) = Some h \<and> Some h \<notin> set (map sample_key (drop (Suc j) bs))"
proof (induction bs arbitrary: j)
  case Nil
  show ?case by simp
next
  case (Cons s bs)
  show ?case
  proof (cases j)
    case 0
    then show ?thesis
      using last_pos_None [of h bs] by (auto split: option.splits)
  next
    case (Suc j')
    then show ?thesis
      using Cons.IH [of j'] by (auto split: option.splits)
  qed
qed


lemma map_of_dict_update:
  "map_of (dict_update k v kvs) k' = (if k' = k then Some v else map_of kvs k')"
  by (induction kvs) auto

lemma dict_update_twice: "dict_update k v2 (dict_update k v1 kvs) = dict_update k v2 kvs"
  by (induction kvs) auto

lemma wf_sample_obj: "wf_sample s \<Longrightarrow> \<exists>kvs. s = JObj kvs"
  by (cases s) (auto simp: wf_sample_def sample_key_def)

lemma append_project_with_projects:
  assumes "wf_sample s"
  shows "append_project s p = Inr (with_projects s [p])"
proof -
  from wf_sample_obj [OF assms] obtain kvs where s: "s = JObj kvs" by blast
  show ?thesis
  proof (cases "map_of kvs ''projects''")
    case None
    then show ?thesis
      by (simp add: s with_projects_def old_projects_def map_of_dict_update dict_update_twice)
  next
    case (Some v)
    with assms s obtain qs where "v = JList qs"
      by (cases v) (auto simp: wf_sample_def)
    with Some show ?thesis
      by (simp add: s with_projects_def old_projects_def)
  qed
qed

lemma sample_key_with_projects: "sample_key (with_projects s qs) = sample_key s"
  by (cases s) (auto simp: with_projects_def sample_key_def map_of_dict_update)

lemma old_projects_with_projects:
  "wf_sample s \<Longrightarrow> old_projects (with_projects s qs) = old_projects s @ qs"
  by (cases s)
     (auto simp: with_projects_def old_projects_def map_of_dict_update wf_sample_def
                 sample_key_def)

lemma wf_sample_with_projects: "wf_sample s \<Longrightarrow> wf_sample (with_projects s qs)"
  by (cases s)
     (auto simp: wf_sample_def sample_key_def with_projects_def map_of_dict_update)

lemma with_projects_append:
  assumes "wf_sample s"
  shows "with_projects (with_projects s qs) rs = with_projects s (qs @ rs)"
proof (cases "qs = [] \<or> rs = []")
  case True
  then show ?thesis by (auto simp: with_projects_def split: json.splits)
next
  case False
  from wf_sample_obj [OF assms] obtain kvs where s: "s = JObj kvs" by blast
  have o: "old_projects (with_projects s qs) = old_projects s @ qs"
    using assms by (rule old_projects_with_projects)
  have w: "with_projects s qs = JObj (dict_update ''projects'' (JList (old_projects s @ qs)) kvs)"
    using False by (simp add: with_projects_def s)
  show ?thesis
    using False o unfolding w
    by (simp add: with_projects_def s dict_update_twice)
qed

lemma not_isl_Inr: "\<not> isl x \<Longrightarrow> \<exists>y. x = Inr y"
  by (cases x) auto

lemma weave_projects_spec:
  assumes "\<forall>p\<in>set ps. wf_project p" and "\<forall>s\<in>set cur. wf_sample s"
    and "\<forall>h j. m h = Some j \<longrightarrow> j < length cur"
  shows "\<exists>cur'. weave_projects ident m ps cur lg
           = (Inr cur', lg @ map (\<lambda>p. SampleNotInSamples (project_sample_id p) ident p)
                                 (filter (no_target m) ps))
         \<and> length cur' = length cur
         \<and> (\<forall>j<length cur. cur' ! j = with_projects (cur ! j) (filter (targets m j) ps))"
  using assms
proof (induction ps arbitrary: cur lg)
  case Nil
  show ?case by (simp add: with_projects_def)
next
  case (Cons p ps)
  from Cons.prems(1) have wfp: "wf_project p" and wfps: "\<forall>p\<in>set ps. wf_project p"
    by simp_all
  from wfp obtain k h g where k: "py_getitem p ''biosampleGoldId'' = Inr k"
    and h: "py_hash k = Inr h" and g: "py_getitem p ''projectGoldId'' = Inr g"
    by (auto simp: wf_project_def split: sum.splits dest!: not_isl_Inr)
  show ?case
  proof (cases "k = JNull")
    case True
    then have pk: "project_key p = None" using k by (simp add: project_key_def)
    have step: "weave_projects ident m (p # ps) cur lg = weave_projects ident m ps cur lg"
      using k True by simp
    from Cons.IH [OF wfps Cons.prems(2,3), of lg] show ?thesis
      unfolding step by (simp add: pk targets_def no_target_def)
  next
    case False
    then have pk: "project_key p = Some h" using k h by (simp add: project_key_def)
    have sid: "project_sample_id p = k" using k by (simp add: project_sample_id_def)
    show ?thesis
    proof (cases "m h")
      case None
      have step: "weave_projects ident m (p # ps) cur lg
            = weave_projects ident m ps cur (lg @ [SampleNotInSamples k ident p])"
        using k h False None by simp
      from Cons.IH [OF wfps Cons.prems(2,3), of "lg @ [SampleNotInSamples k ident p]"]
      show ?thesis
        unfolding step by (simp add: pk targets_def no_target_def None sid)
    next
      case (Some i)
      with Cons.prems(3) have i: "i < length cur" by simp
      then have wfi: "wf_sample (cur ! i)" using Cons.prems(2) by simp
      let ?s' = "with_projects (cur ! i) [p]"
      let ?cur2 = "cur[i := ?s']"
      have step: "weave_projects ident m (p # ps) cur lg = weave_projects ident m ps ?cur2 lg"
        using k h g False Some append_project_with_projects [OF wfi, of p] by simp
      have wf2: "\<forall>s\<in>set ?cur2. wf_sample s"
        using Cons.prems(2) wf_sample_with_projects [OF wfi, of "[p]"]
        by (auto dest!: set_update_subset_insert [THEN subsetD])
      have rng2: "\<forall>h j. m h = Some j \<longrightarrow> j < length ?cur2"
        using Cons.prems(3) by simp
      from Cons.IH [OF wfps wf2 rng2, of lg] obtain cur' where
        r: "weave_projects ident m ps ?cur2 lg
             = (Inr cur', lg @ map (\<lambda>p. SampleNotInSamples (project_sample_id p) ident p)
                                   (filter (no_target m) ps))"
        and len: "length cur' = length ?cur2"
        and el: "\<forall>j<length ?cur2. cur' ! j = with_projects (?cur2 ! j) (filter (targets m j) ps)"
        by blast
      have "cur' ! j = with_projects (cur ! j) (filter (targets m j) (p # ps))"
        if j: "j < length cur" for j
      proof (cases "j = i")
        case True
        have "cur' ! j = with_projects ?s' (filter (targets m j) ps)"
          using el j True by simp
        also have "\<dots> = with_projects (cur ! i) ([p] @ filter (targets m j) ps)"
          using wfi by (rule with_projects_append)
        finally show ?thesis
          using True by (simp add: targets_def pk Some)
      next
        case False
        then have "\<not> targets m j p" by (simp add: targets_def pk Some)
        moreover have "cur' ! j = with_projects (cur ! j) (filter (targets m j) ps)"
          using el j False by simp
        ultimately show ?thesis by simp
      qed
      moreover have "\<not> no_target m p"
        by (simp add: no_target_def pk Some)
      ultimately show ?thesis
        using r len unfolding step by simp
    qed
  qed
qed


lemma targets_last_pos:
  assumes "j < length bs"
  shows "targets (\<lambda>h. last_pos h bs) j p = attached_to bs j p"
  using assms
  by (cases "project_key p") (auto simp: targets_def attached_to_def last_pos_Some)

lemma no_target_last_pos: "no_target (\<lambda>h. last_pos h bs) p = unmatched bs p"
  by (cases "project_key p") (auto simp: no_target_def unmatched_def last_pos_None)

lemma weave_woven:
  assumes "\<forall>s\<in>set bs. wf_sample s" and "\<forall>p\<in>set ps. wf_project p"
  shows "weave ident (JList bs) (JList ps)
         = (Inr (JList (woven bs ps)),
            map (\<lambda>p. SampleNotInSamples (project_sample_id p) ident p) (filter (unmatched bs) ps))"
proof -
  let ?m = "\<lambda>h. last_pos h bs"
  have keys: "\<forall>s\<in>set bs. sample_key s \<noteq> None"
    using assms(1) by (simp add: wf_sample_def)
  have m: "samples_by_id bs 0 Map.empty = Inr ?m"
    using samples_by_id_last_pos [OF keys, of 0 Map.empty]
    by (simp add: option.case_eq_if fun_eq_iff)
  have rng: "\<forall>h j. ?m h = Some j \<longrightarrow> j < length bs"
    by (simp add: last_pos_less)
  from weave_projects_spec [OF assms(2,1) rng, of ident "[]"] obtain cur' where
    r: "weave_projects ident ?m ps bs []
          = (Inr cur', map (\<lambda>p. SampleNotInSamples (project_sample_id p) ident p)
                           (filter (no_target ?m) ps))"
    and len: "length cur' = length bs"
    and el: "\<forall>j<length bs. cur' ! j = with_projects (bs ! j) (filter (targets ?m j) ps)"
    by auto
  have "cur' = woven bs ps"
  proof (rule nth_equalityI)
    show "length cur' = length (woven bs ps)"
      using len by (simp add: woven_def)
  next
    fix j assume "j < length cur'"
    then have j: "j < length bs" using len by simp
    have "filter (targets ?m j) ps = filter (attached_to bs j) ps"
      using targets_last_pos [OF j] by (intro filter_cong) auto
    then show "cur' ! j = woven bs ps ! j"
      using el j by (simp add: woven_def)
  qed
  moreover have "filter (no_target ?m) ps = filter (unmatched bs) ps"
    by (intro filter_cong) (auto simp: no_target_last_pos)
  ultimately show ?thesis
    using r m by (simp add: weave_def)
qed

lemma normalize_id_Gs1: "normalize_id ''Gs1'' = ''Gs1''"
  by (simp add: normalize_id_def)

text \<open>
  C1, as amended. Let the biosamples query return a list of well-formed samples and the
  projects query a list of well-formed projects. Then \<^verbatim>\<open>fetch_biosamples_by_study\<close> with
  \<^verbatim>\<open>include_project=True\<close> raises no error and returns the fetched biosamples, all of
  them and in their order, the biosample at each position having gained, appended to its
  \<^verbatim>\<open>projects\<close> list in the order fetched, exactly the projects whose \<^verbatim>\<open>biosampleGoldId\<close>
  is not \<^verbatim>\<open>None\<close> and equals its own, provided no later biosample has the same id; a
  biosample that gains no project is returned as fetched. A project whose
  \<^verbatim>\<open>biosampleGoldId\<close> is not \<^verbatim>\<open>None\<close> and is the id of no fetched biosample is attached
  nowhere and logged.
\<close>

theorem projects_woven_into_biosamples:
  assumes "call ''biosamples'' [(''studyGoldId'', JStr (normalize_id ident))] w = (Inr (JList bs), w1)"
    and "fetch_projects_by_study (normalize_id ident) w1 = (Inr (JList ps), w2)"
    and "\<forall>s\<in>set bs. wf_sample s" and "\<forall>p\<in>set ps. wf_project p"
  shows "fetch_biosamples_by_study ident True w =
           (Inr (JList (woven bs ps)),
            w2\<lparr>log := log w2 @ map (\<lambda>p. SampleNotInSamples (project_sample_id p) (normalize_id ident) p)
                                    (filter (unmatched bs) ps)\<rparr>)
       \<and> length (woven bs ps) = length bs
       \<and> (\<forall>j<length bs.
            woven bs ps ! j = with_projects (bs ! j) (filter (attached_to bs j) ps))"
  using fetch_biosamples_by_study_weave [OF assms(1,2)] weave_woven [OF assms(3,4)]
  by (simp add: woven_def)

theorem projects_woven_into_biosamples_witness:
  "fst (fetch_biosamples_by_study ''Gs1'' True gold_world) =
     Inr (JList [JObj [(''biosampleGoldId'', JStr ''Gb1''),
                       (''projects'', JList [JObj [(''projectGoldId'', JStr ''Gp1''),
                                                   (''biosampleGoldId'', JStr ''Gb1'')]])],
                 JObj [(''biosampleGoldId'', JStr ''Gb2'')]])
   \<and> log (snd (fetch_biosamples_by_study ''Gs1'' True gold_world)) =
       [SampleNotInSamples (JStr ''Gb3'') ''Gs1''
          (JObj [(''projectGoldId'', JStr ''Gp3''), (''biosampleGoldId'', JStr ''Gb3'')])]"
proof -
  let ?b1 = "JObj [(''biosampleGoldId'', JStr ''Gb1'')]"
  let ?b2 = "JObj [(''biosampleGoldId'', JStr ''Gb2'')]"
  let ?p1 = "JObj [(''projectGoldId'', JStr ''Gp1''), (''biosampleGoldId'', JStr ''Gb1'')]"
  let ?p3 = "JObj [(''projectGoldId'', JStr ''Gp3''), (''biosampleGoldId'', JStr ''Gb3'')]"
  obtain w1 where c1: "call ''biosamples'' [(''studyGoldId'', JStr (normalize_id ''Gs1''))] gold_world
        = (Inr (gold_api ''biosamples'' [(''studyGoldId'', JStr (normalize_id ''Gs1''))]), w1)"
    and s1: "serves gold_api w1" and l1: "log w1 = log gold_world"
    using serves_call [OF serves_gold_world] by blast
  obtain w2 where c2: "call ''projects'' [(''studyGoldId'', JStr (normalize_id (normalize_id ''Gs1'')))] w1
        = (Inr (gold_api ''projects'' [(''studyGoldId'', JStr (normalize_id (normalize_id ''Gs1'')))]), w2)"
    and l2: "log w2 = log w1"
    using serves_call [OF s1] by blast
  have b: "gold_api ''biosamples'' [(''studyGoldId'', JStr (normalize_id ''Gs1''))] = JList [?b1, ?b2]"
    by (simp add: gold_api_def normalize_id_Gs1)
  have p: "gold_api ''projects'' [(''studyGoldId'', JStr (normalize_id (normalize_id ''Gs1'')))]
           = JList [?p1, ?p3]"
    by (simp add: gold_api_def normalize_id_Gs1)
  have fp: "fetch_projects_by_study (normalize_id ''Gs1'') w1 = (Inr (JList [?p1, ?p3]), w2)"
    using c2 p by (simp add: fetch_projects_by_study_def)
  have l0: "log gold_world = []"
    by (simp add: gold_world_def world0_def)
  have wfs: "\<forall>s\<in>set [?b1, ?b2]. wf_sample s"
    by (simp add: wf_sample_def sample_key_def)
  have wfp: "\<forall>p\<in>set [?p1, ?p3]. wf_project p"
    by (simp add: wf_project_def)
  have wv: "woven [?b1, ?b2] [?p1, ?p3]
            = [JObj [(''biosampleGoldId'', JStr ''Gb1''), (''projects'', JList [?p1])], ?b2]"
    by (simp add: woven_def attached_to_def with_projects_def old_projects_def
          sample_key_def project_key_def upt_rec)
  have um: "filter (unmatched [?b1, ?b2]) [?p1, ?p3] = [?p3]"
    by (simp add: unmatched_def sample_key_def project_key_def)
  from projects_woven_into_biosamples [OF c1 [unfolded b] fp wfs wfp, THEN conjunct1,
      unfolded wv um] l0 l1 l2
  show ?thesis
    by (simp add: normalize_id_Gs1 project_sample_id_def)
qed

lemma gold_world_Gs2:
  "fst (fetch_biosamples_by_study ''Gs2'' True gold_world)
     = Inr (JList [JObj [(''biosampleGoldId'', JNull)]])"
proof -
  have b: "gold_api ''biosamples'' [(''studyGoldId'', JStr (normalize_id ''Gs2''))]
           = JList [JObj [(''biosampleGoldId'', JNull)]]"
    by (simp add: gold_api_def normalize_id_Gs2)
  have p: "gold_api ''projects'' [(''studyGoldId'', JStr (normalize_id (normalize_id ''Gs2'')))]
           = JList [JObj [(''projectGoldId'', JStr ''Gp7''), (''biosampleGoldId'', JNull)]]"
    by (simp add: gold_api_def normalize_id_Gs2)
  have wv: "weave (normalize_id ''Gs2'') (JList [JObj [(''biosampleGoldId'', JNull)]])
              (JList [JObj [(''projectGoldId'', JStr ''Gp7''), (''biosampleGoldId'', JNull)]])
            = (Inr (JList [JObj [(''biosampleGoldId'', JNull)]]), [])"
    by (simp add: weave_def)
  from serves_fetch_biosamples_by_study [OF serves_gold_world, of "''Gs2''"]
  show ?thesis
    unfolding b p wv by auto
qed

text \<open>
  C1 as stated fails: in the snapshot, study Gs2 has one biosample and one project with
  the same \<^verbatim>\<open>biosampleGoldId\<close>, namely \<^verbatim>\<open>None\<close>, and the biosample is returned without the
  project.
\<close>

theorem null_id_project_counterexample:
  "gold_api ''biosamples'' [(''studyGoldId'', JStr ''Gs2'')]
     = JList [JObj [(''biosampleGoldId'', JNull)]]
   \<and> gold_api ''projects'' [(''studyGoldId'', JStr ''Gs2'')]
     = JList [JObj [(''projectGoldId'', JStr ''Gp7''), (''biosampleGoldId'', JNull)]]
   \<and> py_getitem (JObj [(''projectGoldId'', JStr ''Gp7''), (''biosampleGoldId'', JNull)])
         ''biosampleGoldId''
       = py_getitem (JObj [(''biosampleGoldId'', JNull)]) ''biosampleGoldId''
   \<and> fst (fetch_biosamples_by_study ''Gs2'' True gold_world)
       = Inr (JList [JObj [(''biosampleGoldId'', JNull)]])"
  using gold_world_Gs2 by (simp add: gold_api_def)

section \<open>Claims about single studies\<close>

lemma fetch_attempts_not_IndexError: "fst (fetch_attempts req a w) \<noteq> Inl IndexError"
proof (induction req a w rule: fetch_attempts.induct)
  case (1 req attempt w)
  show ?case
  proof (cases "attempt < 4")
    case False
    then show ?thesis by (subst fetch_attempts.simps) simp
  next
    case True
    show ?thesis
    proof (cases "server w req (requests_sent w)")
      case NoResponse
      with True show ?thesis by (subst fetch_attempts.simps) simp
    next
      case (Response code body)
      show ?thesis
      proof (cases "code = 200")
        case True
        with \<open>attempt < 4\<close> Response show ?thesis
          by (subst fetch_attempts.simps) (auto simp: Let_def split: option.splits)
      next
        case False
        from "1.IH" [OF \<open>attempt < 4\<close> refl Response False]
        show ?thesis
          using fetch_attempts_retry [OF \<open>attempt < 4\<close> Response False] by auto
      qed
    qed
  qed
qed

lemma fetch_url_not_IndexError: "fst (fetch_url req w) \<noteq> Inl IndexError"
  using fetch_attempts_not_IndexError [of req 0 w]
  by (auto simp: fetch_url_unfold split: option.splits prod.splits sum.splits)

lemma call_not_IndexError: "fst (call endpoint ps w) \<noteq> Inl IndexError"
  using fetch_url_not_IndexError
  by (auto simp: call_def split: option.splits prod.splits sum.splits)
     (metis fst_conv)

lemma py_getitem_not_IndexError: "py_getitem j k \<noteq> Inl IndexError"
  by (cases j) (auto split: option.splits)

lemma py_hash_not_IndexError: "py_hash j \<noteq> Inl IndexError"
  by (cases j) auto

lemma py_iter_not_IndexError: "py_iter j \<noteq> Inl IndexError"
  by (cases j) auto

lemma samples_by_id_not_IndexError: "samples_by_id xs i m \<noteq> Inl IndexError"
  by (induction xs arbitrary: i m)
     (auto simp: py_getitem_not_IndexError py_hash_not_IndexError split: sum.splits)

lemma append_project_not_IndexError: "append_project s p \<noteq> Inl IndexError"
  by (cases s) (auto simp: Let_def split: option.splits json.splits)

lemma weave_projects_not_IndexError:
  "fst (weave_projects ident m ps bs lg) \<noteq> Inl IndexError"
  by (induction ps arbitrary: bs lg)
     (auto simp: py_getitem_not_IndexError py_hash_not_IndexError append_project_not_IndexError
           split: sum.splits option.splits)

lemma weave_not_IndexError: "fst (weave ident bs ps) \<noteq> Inl IndexError"
  using weave_projects_not_IndexError
  by (auto simp: weave_def py_iter_not_IndexError samples_by_id_not_IndexError
           split: sum.splits prod.splits)
     (metis fst_conv)

lemma fetch_biosamples_by_study_not_IndexError:
  "fst (fetch_biosamples_by_study ident incl w) \<noteq> Inl IndexError"
  using call_not_IndexError weave_not_IndexError
  by (auto simp: fetch_biosamples_by_study_def fetch_projects_by_study_def Let_def
           split: sum.splits prod.splits)
     (metis fst_conv)+

lemma py_setitem_not_IndexError: "py_setitem j k v \<noteq> Inl IndexError"
  by (cases j) auto

lemma normalize_id_Gs0: "normalize_id ''Gs0'' = ''Gs0''"
  by (simp add: normalize_id_def)

lemma normalize_id_gold_Gs1: "normalize_id ''gold:Gs1'' = ''Gs1''"
  by (simp add: normalize_id_def)

text \<open>
  C9. Let the studies query of \<^verbatim>\<open>fetch_study\<close> return \<open>results\<close>. When \<open>results\<close> is the
  empty list, \<^verbatim>\<open>fetch_study\<close> fails with \<^verbatim>\<open>IndexError\<close>, whatever \<^verbatim>\<open>include_biosamples\<close>
  is: it makes no stub study. When \<open>results\<close> has a first element, \<^verbatim>\<open>fetch_study\<close> does
  not fail with \<^verbatim>\<open>IndexError\<close>; without biosamples it returns the first element, and
  with biosamples it returns the first element with the fetched biosamples set into it
  (or the error of that fetch).
\<close>

theorem fetch_study_first_result_or_IndexError:
  assumes "call ''studies'' [(''studyGoldId'', JStr (normalize_id ident))] w = (Inr results, w1)"
  shows "(results = JList [] \<longrightarrow>
            fetch_study ident include_biosamples w = (Inl IndexError, w1))
       \<and> (\<forall>study rest. results = JList (study # rest) \<longrightarrow>
            fetch_study ident False w = (Inr study, w1)
          \<and> fetch_study ident True w =
              (case fetch_biosamples_by_study (normalize_id ident) True w1 of
                 (Inl e, w2) \<Rightarrow> (Inl e, w2)
               | (Inr bs, w2) \<Rightarrow>
                   (case py_setitem study ''biosamples'' bs of
                      Inl e \<Rightarrow> (Inl e, w2)
                    | Inr study' \<Rightarrow> (Inr study', w2)))
          \<and> fst (fetch_study ident include_biosamples w) \<noteq> Inl IndexError)"
proof (intro conjI impI allI)
  assume "results = JList []"
  with assms show "fetch_study ident include_biosamples w = (Inl IndexError, w1)"
    by (simp add: fetch_study_def)
next
  fix study rest
  assume r: "results = JList (study # rest)"
  with assms show "fetch_study ident False w = (Inr study, w1)"
    by (simp add: fetch_study_def)
  from r assms show t: "fetch_study ident True w =
              (case fetch_biosamples_by_study (normalize_id ident) True w1 of
                 (Inl e, w2) \<Rightarrow> (Inl e, w2)
               | (Inr bs, w2) \<Rightarrow>
                   (case py_setitem study ''biosamples'' bs of
                      Inl e \<Rightarrow> (Inl e, w2)
                    | Inr study' \<Rightarrow> (Inr study', w2)))"
    by (simp add: fetch_study_def)
  show "fst (fetch_study ident include_biosamples w) \<noteq> Inl IndexError"
  proof (cases include_biosamples)
    case False
    with r assms show ?thesis by (simp add: fetch_study_def)
  next
    case True
    then have "fetch_study ident include_biosamples w = fetch_study ident True w"
      by simp
    then show ?thesis
      unfolding t
      using fetch_biosamples_by_study_not_IndexError [of "normalize_id ident" True w1]
      by (auto simp: py_setitem_not_IndexError split: prod.splits sum.splits)
  qed
qed

theorem fetch_study_first_result_or_IndexError_witness:
  "fst (fetch_study ''Gs0'' False gold_world) = Inl IndexError
   \<and> fst (fetch_study ''Gs0'' True gold_world) = Inl IndexError
   \<and> fst (fetch_study ''gold:Gs1'' False gold_world) = Inr (JObj [(''studyGoldId'', JStr ''Gs1'')])"
proof -
  obtain w0 where c0: "call ''studies'' [(''studyGoldId'', JStr (normalize_id ''Gs0''))] gold_world
      = (Inr (gold_api ''studies'' [(''studyGoldId'', JStr (normalize_id ''Gs0''))]), w0)"
    using serves_call [OF serves_gold_world] by blast
  obtain w1 where c1: "call ''studies'' [(''studyGoldId'', JStr (normalize_id ''gold:Gs1''))] gold_world
      = (Inr (gold_api ''studies'' [(''studyGoldId'', JStr (normalize_id ''gold:Gs1''))]), w1)"
    using serves_call [OF serves_gold_world] by blast
  have e0: "gold_api ''studies'' [(''studyGoldId'', JStr (normalize_id ''Gs0''))] = JList []"
    by (simp add: gold_api_def normalize_id_Gs0)
  have e1: "gold_api ''studies'' [(''studyGoldId'', JStr (normalize_id ''gold:Gs1''))]
            = JList [JObj [(''studyGoldId'', JStr ''Gs1'')]]"
    by (simp add: gold_api_def normalize_id_gold_Gs1)
  from fetch_study_first_result_or_IndexError [OF c0, of False]
       fetch_study_first_result_or_IndexError [OF c0, of True]
       fetch_study_first_result_or_IndexError [OF c1, of False]
  show ?thesis
    unfolding e0 e1 by simp
qed

text \<open>
  C5. When the studies query for the normalized biosample id returns nothing (a value of
  length 0), \<^verbatim>\<open>fetch_study_by_biosample_id\<close> with its default \<^verbatim>\<open>include_biosamples=False\<close>
  returns, with no error, the record whose only field is \<^verbatim>\<open>studyGoldId\<close>, equal to
  "GsFAKE-" followed by the normalized id (and logs a warning). With
  \<^verbatim>\<open>include_biosamples=True\<close> it fetches the biosamples of that placeholder id and returns
  the same record with them set into it, unless that fetch raises.
\<close>

theorem fetch_study_by_biosample_id_stub:
  assumes "call ''studies'' [(''biosampleGoldId'', JStr (normalize_id ident))] w = (Inr results, w1)"
    and "py_len results = Inr 0"
  shows "fetch_study_by_biosample_id ident False w =
           (Inr (stub_study (normalize_id ident)),
            w1\<lparr>log := log w1 @ [NoStudyStub (normalize_id ident)]\<rparr>)
       \<and> py_getitem (stub_study (normalize_id ident)) ''studyGoldId''
            = Inr (JStr (''GsFAKE-'' @ normalize_id ident))
       \<and> fetch_study_by_biosample_id ident True w =
           (case fetch_biosamples_by_study (''GsFAKE-'' @ normalize_id ident) True
                   (w1\<lparr>log := log w1 @ [NoStudyStub (normalize_id ident)]\<rparr>) of
              (Inl e, w3) \<Rightarrow> (Inl e, w3)
            | (Inr bs, w3) \<Rightarrow>
                (Inr (JObj [(''studyGoldId'', JStr (''GsFAKE-'' @ normalize_id ident)),
                            (''biosamples'', bs)]), w3))"
  using assms
  by (simp add: fetch_study_by_biosample_id_def stub_study_def Let_def
           split: prod.splits sum.splits)

theorem fetch_study_by_biosample_id_stub_witness:
  "fst (fetch_study_by_biosample_id ''gold:Gb9'' False gold_world)
     = Inr (JObj [(''studyGoldId'', JStr ''GsFAKE-Gb9'')])
   \<and> fst (fetch_study_by_biosample_id ''gold:Gb9'' True gold_world)
     = Inr (JObj [(''studyGoldId'', JStr ''GsFAKE-Gb9''), (''biosamples'', JList [])])"
proof -
  have n: "normalize_id ''gold:Gb9'' = ''Gb9''"
    by (simp add: normalize_id_def)
  have n': "normalize_id ''GsFAKE-Gb9'' = ''GsFAKE-Gb9''"
    by (simp add: normalize_id_def)
  obtain w1 where c: "call ''studies'' [(''biosampleGoldId'', JStr (normalize_id ''gold:Gb9''))] gold_world
      = (Inr (gold_api ''studies'' [(''biosampleGoldId'', JStr (normalize_id ''gold:Gb9''))]), w1)"
    and s1: "serves gold_api w1"
    using serves_call [OF serves_gold_world] by blast
  have e: "py_len (gold_api ''studies'' [(''biosampleGoldId'', JStr (normalize_id ''gold:Gb9''))]) = Inr 0"
    by (simp add: gold_api_def n)
  have s2: "serves gold_api (w1\<lparr>log := log w1 @ [NoStudyStub ''Gb9'']\<rparr>)"
    using s1 by (simp add: serves_log)
  have wv: "weave ''GsFAKE-Gb9'' (gold_api ''biosamples'' [(''studyGoldId'', JStr ''GsFAKE-Gb9'')])
              (gold_api ''projects'' [(''studyGoldId'', JStr ''GsFAKE-Gb9'')]) = (Inr (JList []), [])"
    by (simp add: gold_api_def weave_def)
  from serves_fetch_biosamples_by_study [OF s2, of "''GsFAKE-Gb9''"]
  obtain w2 where f: "fetch_biosamples_by_study ''GsFAKE-Gb9'' True
                        (w1\<lparr>log := log w1 @ [NoStudyStub ''Gb9'']\<rparr>)
                      = (Inr (JList []), w2\<lparr>log := log w2\<rparr>)"
    unfolding n' wv by auto
  from fetch_study_by_biosample_id_stub [OF c e] f show ?thesis
    by (simp add: stub_study_def n)
qed

section \<open>Claims about the batch orchestrator\<close>


















end
